theory Spec2Isabelle
  imports Main "HOL-Library.Char_ord" "HOL-Library.List_Lexorder"
begin

section \<open>NotificationSaga.js: the data\<close>

text \<open>
  Timestamps and ids are JavaScript strings (\<^verbatim>\<open>getTimestamp\<close> is documented to return
  \<^verbatim>\<open>Boolean|String\<close>). The comparison \<^verbatim>\<open>a > b\<close> of two strings is lexicographic, which is
  the order of \<^typ>\<open>string\<close> under \<open>List_Lexorder\<close> and \<open>Char_ord\<close>.
\<close>

type_synonym timestamp = string
type_synonym notif_id = string

text \<open>The fields of a notification that the sagas read.\<close>

record notification =
  notify_type :: string
  created :: timestamp
  updated :: timestamp

text \<open>
  \<^verbatim>\<open>state.notification.byId\<close> is an Immutable \<^verbatim>\<open>OrderedMap\<close>: an association list in
  iteration order. The pending queues are Immutable sets of ids, given here as the list
  \<^verbatim>\<open>toArray()\<close> returns, so \<^verbatim>\<open>count()\<close> is the length.
\<close>

type_synonym notifs = "(notif_id \<times> notification) list"

record state =
  username :: "string option"
  byId :: notifs
  idsReadPending :: "notif_id list"
  idsUnreadPending :: "notif_id list"
  idsShownPending :: "notif_id list"

text \<open>
  What a call of the API client resolves to: an object that may carry an \<^verbatim>\<open>error\<close>
  (absent is \<open>None\<close>), next to its data.
\<close>

record response =
  error :: "string option"
  data :: string

text \<open>The \<^verbatim>\<open>sentUpdates\<close> / \<^verbatim>\<open>updates\<close> objects: \<^verbatim>\<open>{read: true}\<close>, \<^verbatim>\<open>{read: false}\<close>, \<^verbatim>\<open>{shown: true}\<close>.\<close>

record updates =
  read :: "bool option"
  shown :: "bool option"

text \<open>
  A redux action \<^verbatim>\<open>{type: ..., <one more property>}\<close>: its \<^verbatim>\<open>type\<close> string and the
  property that comes with it (\<^verbatim>\<open>msg\<close>, \<^verbatim>\<open>direction\<close>, \<^verbatim>\<open>updates\<close> or \<^verbatim>\<open>payload\<close>).
\<close>

datatype action_body =
    NoBody
  | Msg string
  | Direction string
  | Updates updates
  | Payload response

datatype action = Action (atype: string) (abody: action_body)

text \<open>
  The argument of \<^verbatim>\<open>fetchSomeNotifications\<close> is the object
  \<^verbatim>\<open>{username, types, ...filter}\<close>: its properties in order, each key once.
\<close>

datatype req_value =
    Username "string option"
  | Types "string list option"
  | Cursor timestamp

type_synonym request = "(string \<times> req_value) list"

text \<open>The five functions imported from \<^verbatim>\<open>app/utils/YoApiClient\<close>, applied to their argument.\<close>

datatype api_call =
    FetchAllNotifications "string option"
  | FetchSomeNotifications request
  | MarkAsRead "notif_id list"
  | MarkAsUnread "notif_id list"
  | MarkAsShown "notif_id list"

section \<open>Generators as effect programs\<close>

text \<open>
  A saga is a generator: it yields an effect and is resumed with the effect's result.
  One constructor per effect of the file:
  \<^item> \<^verbatim>\<open>select(accessor)\<close>, resumed with the accessor applied to the store's state;
  \<^item> \<^verbatim>\<open>call(getTimestamp, direction, filteredNotifs)\<close>, resumed with the function's value;
  \<^item> \<^verbatim>\<open>call(<api function>, argument)\<close>, resumed with the response;
  \<^item> \<^verbatim>\<open>call(delay, millis)\<close> inside \<^verbatim>\<open>try\<close>: the continuation when the wait resumes,
    and the \<^verbatim>\<open>catch\<close> block entered when the generator is thrown into while it waits;
  \<^item> \<^verbatim>\<open>put(action)\<close>.
\<close>

datatype saga =
    Done
  | Select_username "state \<Rightarrow> string option" "string option \<Rightarrow> saga"
  | Select_notifs "state \<Rightarrow> notifs" "notifs \<Rightarrow> saga"
  | Select_ids "state \<Rightarrow> notif_id list" "notif_id list \<Rightarrow> saga"
  | Call_getTimestamp string notifs "timestamp option \<Rightarrow> saga"
  | Call_api api_call "response \<Rightarrow> saga"
  | Call_delay nat saga saga
  | Put action saga

text \<open>What an observer of a running saga sees: remote calls, waits and dispatched actions.\<close>

datatype event =
    Called api_call
  | Waited nat
  | Emitted action

datatype wait_outcome = Elapses | Interrupted

text \<open>
  The world a saga runs in: the store's reducer (every \<^verbatim>\<open>put\<close> action goes through it; it
  is not part of this file, so it is a parameter), the remote service, and whether a
  \<^verbatim>\<open>delay\<close> runs to its end or is interrupted by cancellation.
\<close>

record world =
  reducer :: "state \<Rightarrow> action \<Rightarrow> state"
  api :: "api_call \<Rightarrow> response"
  wait :: wait_outcome

section \<open>Accessors and the timestamp selector\<close>

definition POLL_WAIT_MS :: nat where
  "POLL_WAIT_MS = 5000"

definition getUsernameFromState :: "state \<Rightarrow> string option" where
  "getUsernameFromState st = username st"

definition getNotificationsById :: "state \<Rightarrow> notifs" where
  "getNotificationsById st = byId st"

definition getIdsReadPending :: "state \<Rightarrow> notif_id list" where
  "getIdsReadPending st = idsReadPending st"

definition getIdsUnreadPending :: "state \<Rightarrow> notif_id list" where
  "getIdsUnreadPending st = idsUnreadPending st"

definition getIdsShownPending :: "state \<Rightarrow> notif_id list" where
  "getIdsShownPending st = idsShownPending st"

text \<open>
  \<^verbatim>\<open>getTimestamp\<close>: \<^verbatim>\<open>false\<close> is \<open>None\<close>. \<^verbatim>\<open>sortBy(n => n.updated)\<close> is a stable sort of
  the entries by the value's \<^verbatim>\<open>updated\<close>.
\<close>

definition getTimestamp :: "string \<Rightarrow> notifs \<Rightarrow> timestamp option" where
  "getTimestamp direction filteredNotifs =
     (if length filteredNotifs < 1 then None
      else if direction = ''before'' then Some (created (snd (last filteredNotifs)))
      else Some (updated (snd (last (sort_key (\<lambda>e. updated (snd e)) filteredNotifs)))))"

section \<open>Running a saga\<close>

text \<open>
  The middleware runs a generator to its end: it answers each effect and resumes the
  generator with the answer. The result is what was observed, in order, and the store's
  state afterwards.
\<close>

primrec run :: "world \<Rightarrow> saga \<Rightarrow> state \<Rightarrow> event list \<times> state" where
  "run w Done st = ([], st)"
| "run w (Select_username acc k) st = run w (k (acc st)) st"
| "run w (Select_notifs acc k) st = run w (k (acc st)) st"
| "run w (Select_ids acc k) st = run w (k (acc st)) st"
| "run w (Call_getTimestamp direction filteredNotifs k) st =
     run w (k (getTimestamp direction filteredNotifs)) st"
| "run w (Call_api c k) st =
     (case run w (k (api w c)) st of (es, st') \<Rightarrow> (Called c # es, st'))"
| "run w (Call_delay millis k h) st =
     (case (case wait w of Elapses \<Rightarrow> run w k st | Interrupted \<Rightarrow> run w h st) of
        (es, st') \<Rightarrow> (Waited millis # es, st'))"
| "run w (Put a k) st =
     (case run w k (reducer w st a) of (es, st') \<Rightarrow> (Emitted a # es, st'))"

definition emitted :: "event list \<Rightarrow> action list" where
  "emitted es = concat (map (\<lambda>e. case e of Emitted a \<Rightarrow> [a] | _ \<Rightarrow> []) es)"

definition calls :: "event list \<Rightarrow> api_call list" where
  "calls es = concat (map (\<lambda>e. case e of Called c \<Rightarrow> [c] | _ \<Rightarrow> []) es)"

section \<open>The sagas\<close>

text \<open>
  \<^verbatim>\<open>if (payload.error)\<close> tests truthiness: the branch is taken when the property is
  present and not the empty string. \<open>truthy\<close> gives the value the branch then reads.
\<close>

definition truthy :: "string option \<Rightarrow> string option" where
  "truthy v = (case v of None \<Rightarrow> None | Some s \<Rightarrow> if s = [] then None else Some s)"

definition pollNotifications :: saga where
  "pollNotifications =
     Call_delay POLL_WAIT_MS
       (Put (Action ''notification/FETCH_SOME'' (Direction ''after'')) Done)
       (Put (Action ''notification/APPEND_SOME_ERROR'' (Msg ''poll cancelled'')) Done)"

record update_queue =
  accessor :: "state \<Rightarrow> notif_id list"
  yoApiCall :: "notif_id list \<Rightarrow> api_call"
  sentUpdates :: updates

definition processUpdateQueue :: "update_queue \<Rightarrow> saga" where
  "processUpdateQueue q =
     Select_ids (accessor q) (\<lambda>idsPending.
       if length idsPending > 0 then
         Call_api (yoApiCall q idsPending) (\<lambda>payload.
           case truthy (error payload) of
             Some e \<Rightarrow> Put (Action ''notification/SENT_UPDATES_ERROR'' (Msg e)) Done
           | None \<Rightarrow>
               Put (Action ''notification/SENT_UPDATES'' (Updates (sentUpdates q)))
                 (Put (Action ''notification/APPEND_SOME'' (Payload payload)) Done))
       else Done)"

definition fetchAll :: saga where
  "fetchAll =
     Select_username getUsernameFromState (\<lambda>username.
       Call_api (FetchAllNotifications username) (\<lambda>payload.
         case truthy (error payload) of
           Some e \<Rightarrow> Put (Action ''notification/RECEIVE_ALL_ERROR'' (Msg e)) Done
         | None \<Rightarrow> Put (Action ''notification/RECEIVE_ALL'' (Payload payload)) Done))"

text \<open>
  \<^verbatim>\<open>fetchSome({ types = null, direction = 'after' })\<close>: an absent \<^verbatim>\<open>direction\<close> takes the
  default. \<^verbatim>\<open>types ? ... : ...\<close> holds for every array, the empty one too.
\<close>

record fetch_options =
  opt_types :: "string list option"
  opt_direction :: "string option"

text \<open>\<^verbatim>\<open>obj[key] = v\<close> on an object given as its property list.\<close>

fun assign :: "string \<Rightarrow> 'v \<Rightarrow> (string \<times> 'v) list \<Rightarrow> (string \<times> 'v) list" where
  "assign key v [] = [(key, v)]"
| "assign key v ((k', v') # ps) =
     (if k' = key then (key, v) # ps else (k', v') # assign key v ps)"

definition fetchSome :: "fetch_options \<Rightarrow> saga" where
  "fetchSome opts =
     (let types = opt_types opts;
          direction = (case opt_direction opts of None \<Rightarrow> ''after'' | Some d \<Rightarrow> d)
      in
      Select_username getUsernameFromState (\<lambda>username.
        Select_notifs getNotificationsById (\<lambda>allNotifs.
          let filteredNotifs =
                (case types of
                   Some ts \<Rightarrow> filter (\<lambda>e. notify_type (snd e) \<in> set ts) allNotifs
                 | None \<Rightarrow> allNotifs)
          in
          Call_getTimestamp direction filteredNotifs (\<lambda>timestamp.
            let filter' = (case truthy timestamp of
                            Some t \<Rightarrow> assign direction (Cursor t) []
                          | None \<Rightarrow> [])
            in
            Call_api
              (FetchSomeNotifications
                 (fold (\<lambda>(key, v). assign key v) filter'
                    [(''username'', Username username), (''types'', Types types)]))
              (\<lambda>payload.
                 case truthy (error payload) of
                   Some e \<Rightarrow> Put (Action ''notification/APPEND_SOME_ERROR'' (Msg e)) Done
                 | None \<Rightarrow> Put (Action ''notification/APPEND_SOME'' (Payload payload)) Done)))))"

definition updateOne :: "notif_id \<Rightarrow> updates \<Rightarrow> saga" where
  "updateOne i upd =
     (if read upd = Some True then
        Call_api (MarkAsRead [i]) (\<lambda>payload.
          Put (Action ''notification/APPEND_SOME'' (Payload payload)) Done)
      else Done)"

definition updateSome :: "notif_id list \<Rightarrow> updates \<Rightarrow> saga" where
  "updateSome ids upd =
     (if read upd = Some True then
        Call_api (MarkAsRead ids) (\<lambda>payload.
          Put (Action ''notification/APPEND_SOME'' (Payload payload)) Done)
      else Done)"

section \<open>The poll supervisor\<close>

text \<open>The three queue descriptions \<^verbatim>\<open>watchPollData\<close> maps \<^verbatim>\<open>processUpdateQueue\<close> over.\<close>

definition updateQueues :: "update_queue list" where
  "updateQueues =
     [\<lparr>accessor = getIdsReadPending, yoApiCall = MarkAsRead,
        sentUpdates = \<lparr>read = Some True, shown = None\<rparr>\<rparr>,
      \<lparr>accessor = getIdsUnreadPending, yoApiCall = MarkAsUnread,
        sentUpdates = \<lparr>read = Some False, shown = None\<rparr>\<rparr>,
      \<lparr>accessor = getIdsShownPending, yoApiCall = MarkAsShown,
        sentUpdates = \<lparr>read = None, shown = Some True\<rparr>\<rparr>]"

text \<open>
  What reaches the supervisor from outside: an action dispatched to the store, or the
  end of the 5000 ms of the poll it is racing.
\<close>

datatype signal = Dispatched action | Elapsed

text \<open>The two places where the loop of \<^verbatim>\<open>watchPollData\<close> is suspended.\<close>

datatype phase = Awaiting | Racing

text \<open>
  \<^verbatim>\<open>watchPollData\<close>, run over the signals that arrive; the result is what it and the poll
  it calls let an observer see.
  \<^item> At \<^verbatim>\<open>take([RECEIVE_ALL, APPEND_SOME])\<close> every other action passes by.
  \<^item> \<^verbatim>\<open>[...].map(processUpdateQueue)\<close> calls the generator function on each description.
    Each call returns a generator object that has not started; the array of the three is
    dropped, nothing is yielded, so none of them is ever resumed.
  \<^item> \<^verbatim>\<open>race([call(pollNotifications), take('user/LOGOUT')])\<close>: when the wait ends first the
    poll runs to its end; when the logout comes first the poll is cancelled. The poll is
    written for a cancellation that throws into the generator where it waits (its
    \<^verbatim>\<open>catch\<close> reports \<^verbatim>\<open>poll cancelled\<close>, and its test cancels it with \<^verbatim>\<open>gen.throw\<close>), so
    that is what cancelling does here. The value of the race is not read; the loop goes on.
  A dispatched action also goes through the store's reducer.
\<close>

fun watchPollData :: "world \<Rightarrow> phase \<Rightarrow> state \<Rightarrow> signal list \<Rightarrow> event list" where
  "watchPollData w p st [] = []"
| "watchPollData w Awaiting st (Elapsed # ss) = watchPollData w Awaiting st ss"
| "watchPollData w Awaiting st (Dispatched a # ss) =
     (if atype a \<in> set [''notification/RECEIVE_ALL'', ''notification/APPEND_SOME''] then
        (let generators = map processUpdateQueue updateQueues
         in watchPollData w Racing (reducer w st a) ss)
      else watchPollData w Awaiting (reducer w st a) ss)"
| "watchPollData w Racing st (Elapsed # ss) =
     (case run (w\<lparr>wait := Elapses\<rparr>) pollNotifications st of
        (es, st') \<Rightarrow> es @ watchPollData w Awaiting st' ss)"
| "watchPollData w Racing st (Dispatched a # ss) =
     (if atype a = ''user/LOGOUT'' then
        (case run (w\<lparr>wait := Interrupted\<rparr>) pollNotifications (reducer w st a) of
           (es, st') \<Rightarrow> es @ watchPollData w Awaiting st' ss)
      else watchPollData w Racing (reducer w st a) ss)"

text \<open>\<^verbatim>\<open>NotificationPollSaga\<close> forks the supervisor, which starts at its \<^verbatim>\<open>take\<close>.\<close>

definition NotificationPollSaga :: "world \<Rightarrow> state \<Rightarrow> signal list \<Rightarrow> event list" where
  "NotificationPollSaga w st ss = watchPollData w Awaiting st ss"

section \<open>Observations over several steps\<close>

text \<open>Draining the same queue \<open>n\<close> times in a row, each drain starting in the state the last one left.\<close>

fun drain_repeatedly :: "world \<Rightarrow> update_queue \<Rightarrow> nat \<Rightarrow> state \<Rightarrow> event list \<times> state" where
  "drain_repeatedly w q 0 st = ([], st)"
| "drain_repeatedly w q (Suc n) st =
     (case run w (processUpdateQueue q) st of
        (es, st') \<Rightarrow> (case drain_repeatedly w q n st' of (es', st'') \<Rightarrow> (es @ es', st'')))"

text \<open>The signals that the \<^verbatim>\<open>take\<close> at the head of the supervisor's loop accepts.\<close>

definition received :: "signal \<Rightarrow> bool" where
  "received s =
     (case s of
        Dispatched a \<Rightarrow> atype a \<in> set [''notification/RECEIVE_ALL'', ''notification/APPEND_SOME'']
      | Elapsed \<Rightarrow> False)"

section \<open>Inputs used at concrete points\<close>

definition st0 :: state where
  "st0 = \<lparr>username = Some ''basil'', byId = [], idsReadPending = [], idsUnreadPending = [],
          idsShownPending = [''n1'']\<rparr>"

definition ok_response :: response where
  "ok_response = \<lparr>error = None, data = ''x''\<rparr>"

definition failed_response :: response where
  "failed_response = \<lparr>error = Some ''poll cancelled'', data = []\<rparr>"

definition w_ok :: world where
  "w_ok = \<lparr>reducer = (\<lambda>st a. st), api = (\<lambda>c. ok_response), wait = Elapses\<rparr>"

definition w_failing :: world where
  "w_failing = \<lparr>reducer = (\<lambda>st a. st), api = (\<lambda>c. failed_response), wait = Interrupted\<rparr>"

definition shown_queue :: update_queue where
  "shown_queue = \<lparr>accessor = getIdsShownPending, yoApiCall = MarkAsShown,
                   sentUpdates = \<lparr>read = None, shown = Some True\<rparr>\<rparr>"

definition read_queue :: update_queue where
  "read_queue = \<lparr>accessor = getIdsReadPending, yoApiCall = MarkAsRead,
                   sentUpdates = \<lparr>read = Some True, shown = None\<rparr>\<rparr>"

definition n1 :: notification where
  "n1 = \<lparr>notify_type = ''vote'', created = ''2017-09-03'', updated = ''2017-09-04''\<rparr>"

definition n2 :: notification where
  "n2 = \<lparr>notify_type = ''reply'', created = ''2017-09-02'', updated = ''2017-09-07''\<rparr>"

definition n3 :: notification where
  "n3 = \<lparr>notify_type = ''vote'', created = ''2017-09-01'', updated = ''2017-09-05''\<rparr>"

definition st1 :: state where
  "st1 = \<lparr>username = Some ''basil'', byId = [(''a'', n1), (''b'', n2), (''c'', n3)],
          idsReadPending = [], idsUnreadPending = [], idsShownPending = []\<rparr>"

definition logout :: action where
  "logout = Action ''user/LOGOUT'' NoBody"

definition receive_all :: action where
  "receive_all = Action ''notification/RECEIVE_ALL'' (Payload ok_response)"

definition append_some :: action where
  "append_some = Action ''notification/APPEND_SOME'' (Payload ok_response)"

section \<open>The timestamp selector\<close>

lemma sorted_le_last: "sorted ys \<Longrightarrow> y \<in> set ys \<Longrightarrow> y \<le> last ys"
  by (induction ys) auto

lemma last_sort_key_Max:
  assumes "xs \<noteq> []"
  shows "f (last (sort_key f xs)) = Max (f ` set xs)"
proof -
  let ?ys = "map f (sort_key f xs)"
  have ne: "?ys \<noteq> []"
    using assms by (metis Nil_is_map_conv length_0_conv length_sort)
  have "last ?ys = Max (set ?ys)"
  proof (rule Max_eqI [symmetric])
    show "finite (set ?ys)" by simp
    show "\<And>y. y \<in> set ?ys \<Longrightarrow> y \<le> last ?ys"
      by (rule sorted_le_last) (simp_all del: set_map)
    show "last ?ys \<in> set ?ys" using ne by (rule last_in_set)
  qed
  moreover have "last ?ys = f (last (sort_key f xs))"
    using ne by (simp add: last_map)
  moreover have "set ?ys = f ` set xs" by simp
  ultimately show ?thesis by simp
qed

lemma last_rev_sorted_Min:
  assumes "xs \<noteq> []" and "sorted (rev (map f xs))"
  shows "f (last xs) = Min (f ` set xs)"
proof (cases xs rule: rev_cases)
  case Nil
  with assms show ?thesis by simp
next
  case (snoc ys y)
  with assms have le: "\<forall>x\<in>set ys. f y \<le> f x" by simp
  have "Min (f ` set xs) = f y"
  proof (rule Min_eqI)
    show "finite (f ` set xs)" by simp
    show "\<And>z. z \<in> f ` set xs \<Longrightarrow> f y \<le> z" using le snoc by auto
    show "f y \<in> f ` set xs" using snoc by simp
  qed
  with snoc show ?thesis by simp
qed

text \<open>
  C4. On the empty set \<^verbatim>\<open>getTimestamp\<close> returns \<^verbatim>\<open>false\<close> (absent) for every direction. On a
  non-empty set \<open>S\<close>, direction \<^verbatim>\<open>before\<close> gives the \<^verbatim>\<open>created\<close> of the last element of \<open>S\<close>
  and direction \<^verbatim>\<open>after\<close> gives the greatest \<^verbatim>\<open>updated\<close> in \<open>S\<close>. When \<open>S\<close> is reverse-sorted by
  \<^verbatim>\<open>created\<close>, the last element's \<^verbatim>\<open>created\<close> is the earliest one. The selector is a function
  of its two arguments only.
\<close>

theorem getTimestamp_selects:
  "getTimestamp d [] = None \<and>
   (S \<noteq> [] \<longrightarrow>
      getTimestamp ''before'' S = Some (created (snd (last S))) \<and>
      getTimestamp ''after'' S = Some (Max ((\<lambda>e. updated (snd e)) ` set S))) \<and>
   (S \<noteq> [] \<and> sorted (rev (map (\<lambda>e. created (snd e)) S)) \<longrightarrow>
      getTimestamp ''before'' S = Some (Min ((\<lambda>e. created (snd e)) ` set S)))"
proof (intro conjI impI)
  show "getTimestamp d [] = None" by (simp add: getTimestamp_def)
next
  assume "S \<noteq> []"
  then show "getTimestamp ''before'' S = Some (created (snd (last S)))"
    by (simp add: getTimestamp_def)
next
  assume "S \<noteq> []"
  then show "getTimestamp ''after'' S = Some (Max ((\<lambda>e. updated (snd e)) ` set S))"
    using last_sort_key_Max [of S "\<lambda>e. updated (snd e)"] by (simp add: getTimestamp_def)
next
  assume "S \<noteq> [] \<and> sorted (rev (map (\<lambda>e. created (snd e)) S))"
  then show "getTimestamp ''before'' S = Some (Min ((\<lambda>e. created (snd e)) ` set S))"
    using last_rev_sorted_Min [of S "\<lambda>e. created (snd e)"] by (simp add: getTimestamp_def)
qed

theorem getTimestamp_selects_witness:
  "[(''a'', n1), (''b'', n2), (''c'', n3)] \<noteq> [] \<and>
   sorted (rev (map (\<lambda>e. created (snd e)) [(''a'', n1), (''b'', n2), (''c'', n3)])) \<and>
   getTimestamp ''before'' [(''a'', n1), (''b'', n2), (''c'', n3)] = Some ''2017-09-01'' \<and>
   getTimestamp ''after'' [(''a'', n1), (''b'', n2), (''c'', n3)] = Some ''2017-09-07'' \<and>
   getTimestamp ''after'' [] = None \<and> getTimestamp ''before'' [] = None"
  using getTimestamp_selects [of "''after''" "[(''a'', n1), (''b'', n2), (''c'', n3)]"]
        getTimestamp_selects [of "''before''" "[]"]
  by (simp add: n1_def n2_def n3_def)

section \<open>The queue drainer\<close>

text \<open>
  C5. When the pending queue is not empty and the response of the remote submission carries
  no error, one run of \<^verbatim>\<open>processUpdateQueue\<close> makes the one remote call with the queue's ids
  and puts exactly two actions: first \<^verbatim>\<open>notification/SENT_UPDATES\<close> with the queue's
  \<^verbatim>\<open>sentUpdates\<close>, then \<^verbatim>\<open>notification/APPEND_SOME\<close> with the response. Nothing else is observed.
\<close>

theorem processUpdateQueue_success:
  assumes "accessor q st \<noteq> []"
    and "error (api w (yoApiCall q (accessor q st))) = None \<or>
         error (api w (yoApiCall q (accessor q st))) = Some []"
  shows "run w (processUpdateQueue q) st =
    ([Called (yoApiCall q (accessor q st)),
      Emitted (Action ''notification/SENT_UPDATES'' (Updates (sentUpdates q))),
      Emitted (Action ''notification/APPEND_SOME'' (Payload (api w (yoApiCall q (accessor q st)))))],
     reducer w
       (reducer w st (Action ''notification/SENT_UPDATES'' (Updates (sentUpdates q))))
       (Action ''notification/APPEND_SOME'' (Payload (api w (yoApiCall q (accessor q st))))))"
  using assms by (auto simp add: processUpdateQueue_def truthy_def)

theorem processUpdateQueue_success_witness:
  "accessor shown_queue st0 \<noteq> [] \<and>
   error (api w_ok (yoApiCall shown_queue (accessor shown_queue st0))) = None \<and>
   run w_ok (processUpdateQueue shown_queue) st0 =
    ([Called (MarkAsShown [''n1'']),
      Emitted (Action ''notification/SENT_UPDATES'' (Updates \<lparr>read = None, shown = Some True\<rparr>)),
      Emitted (Action ''notification/APPEND_SOME'' (Payload ok_response))], st0)"
  using processUpdateQueue_success [of shown_queue st0 w_ok]
  by (simp add: shown_queue_def st0_def w_ok_def ok_response_def getIdsShownPending_def)

text \<open>
  C6. When the pending queue is not empty and the response carries an error \<open>e\<close>, one run of
  \<^verbatim>\<open>processUpdateQueue\<close> puts exactly one action, \<^verbatim>\<open>notification/SENT_UPDATES_ERROR\<close> with
  message \<open>e\<close>, and neither \<^verbatim>\<open>SENT_UPDATES\<close> nor \<^verbatim>\<open>APPEND_SOME\<close>. The saga writes nothing to the
  store itself: the state afterwards is the store's reducer applied once, to that action.
\<close>

theorem processUpdateQueue_failure:
  assumes "accessor q st \<noteq> []"
    and "error (api w (yoApiCall q (accessor q st))) = Some e" and "e \<noteq> []"
  shows "run w (processUpdateQueue q) st =
    ([Called (yoApiCall q (accessor q st)),
      Emitted (Action ''notification/SENT_UPDATES_ERROR'' (Msg e))],
     reducer w st (Action ''notification/SENT_UPDATES_ERROR'' (Msg e)))"
  using assms by (simp add: processUpdateQueue_def truthy_def)

theorem processUpdateQueue_failure_witness:
  "accessor shown_queue st0 \<noteq> [] \<and>
   error (api w_failing (yoApiCall shown_queue (accessor shown_queue st0))) = Some ''poll cancelled'' \<and>
   ''poll cancelled'' \<noteq> [] \<and>
   run w_failing (processUpdateQueue shown_queue) st0 =
    ([Called (MarkAsShown [''n1'']),
      Emitted (Action ''notification/SENT_UPDATES_ERROR'' (Msg ''poll cancelled''))], st0)"
  using processUpdateQueue_failure [of shown_queue st0 w_failing "''poll cancelled''"]
  by (simp add: shown_queue_def st0_def w_failing_def failed_response_def getIdsShownPending_def)

lemma drain_empty: "accessor q st = [] \<Longrightarrow> run w (processUpdateQueue q) st = ([], st)"
  by (simp add: processUpdateQueue_def)

text \<open>
  C9. On an empty pending queue a drain makes no remote call, puts no action and leaves the
  state as it was; so does any number of drains in a row.
\<close>

theorem processUpdateQueue_empty:
  assumes "accessor q st = []"
  shows "run w (processUpdateQueue q) st = ([], st) \<and> drain_repeatedly w q n st = ([], st)"
proof
  show "run w (processUpdateQueue q) st = ([], st)" using assms by (rule drain_empty)
  show "drain_repeatedly w q n st = ([], st)"
    using assms by (induction n) (simp_all add: drain_empty)
qed

theorem processUpdateQueue_empty_witness:
  "accessor read_queue st0 = [] \<and> run w_ok (processUpdateQueue read_queue) st0 = ([], st0) \<and>
   drain_repeatedly w_ok read_queue 3 st0 = ([], st0)"
  using processUpdateQueue_empty [of read_queue st0 w_ok 3]
  by (simp add: read_queue_def st0_def getIdsReadPending_def)

section \<open>The poll cycle\<close>

text \<open>
  C8. When the wait of 5000 ms runs to its end, \<^verbatim>\<open>pollNotifications\<close> puts exactly one action,
  \<^verbatim>\<open>notification/FETCH_SOME\<close> with direction \<^verbatim>\<open>after\<close>, and returns.
\<close>

theorem pollNotifications_elapsed:
  assumes "wait w = Elapses"
  shows "run w pollNotifications st =
    ([Waited 5000, Emitted (Action ''notification/FETCH_SOME'' (Direction ''after''))],
     reducer w st (Action ''notification/FETCH_SOME'' (Direction ''after'')))"
  using assms by (simp add: pollNotifications_def POLL_WAIT_MS_def)

theorem pollNotifications_elapsed_witness:
  "wait w_ok = Elapses \<and>
   run w_ok pollNotifications st0 =
    ([Waited 5000, Emitted (Action ''notification/FETCH_SOME'' (Direction ''after''))], st0)"
  using pollNotifications_elapsed [of w_ok st0] by (simp add: w_ok_def)

section \<open>Update-One and Update-Some\<close>

text \<open>
  C10. When \<^verbatim>\<open>updates.read === true\<close>, \<^verbatim>\<open>updateOne\<close> and \<^verbatim>\<open>updateSome\<close> call \<^verbatim>\<open>markAsRead\<close> and put
  \<^verbatim>\<open>notification/APPEND_SOME\<close> with whatever the call returned, an error response included;
  no other action is put. For every other \<^verbatim>\<open>updates\<close> they make no call and put nothing.
\<close>

theorem update_sagas:
  "(read upd = Some True \<longrightarrow>
      run w (updateOne i upd) st =
        ([Called (MarkAsRead [i]),
          Emitted (Action ''notification/APPEND_SOME'' (Payload (api w (MarkAsRead [i]))))],
         reducer w st (Action ''notification/APPEND_SOME'' (Payload (api w (MarkAsRead [i]))))) \<and>
      run w (updateSome ids upd) st =
        ([Called (MarkAsRead ids),
          Emitted (Action ''notification/APPEND_SOME'' (Payload (api w (MarkAsRead ids))))],
         reducer w st (Action ''notification/APPEND_SOME'' (Payload (api w (MarkAsRead ids)))))) \<and>
   (read upd \<noteq> Some True \<longrightarrow>
      run w (updateOne i upd) st = ([], st) \<and> run w (updateSome ids upd) st = ([], st))"
  by (simp add: updateOne_def updateSome_def)

theorem update_sagas_witness:
  "run w_failing (updateOne ''n1'' \<lparr>read = Some True, shown = None\<rparr>) st0 =
     ([Called (MarkAsRead [''n1'']),
       Emitted (Action ''notification/APPEND_SOME'' (Payload failed_response))], st0) \<and>
   run w_failing (updateSome [''n1'', ''n2''] \<lparr>read = Some True, shown = None\<rparr>) st0 =
     ([Called (MarkAsRead [''n1'', ''n2'']),
       Emitted (Action ''notification/APPEND_SOME'' (Payload failed_response))], st0) \<and>
   run w_ok (updateOne ''n1'' \<lparr>read = None, shown = Some True\<rparr>) st0 = ([], st0) \<and>
   run w_ok (updateSome [''n1'', ''n2''] \<lparr>read = Some False, shown = None\<rparr>) st0 = ([], st0)"
  using update_sagas [of "\<lparr>read = Some True, shown = None\<rparr>" w_failing "''n1''" st0 "[''n1'', ''n2'']"]
        update_sagas [of "\<lparr>read = None, shown = Some True\<rparr>" w_ok "''n1''" st0 "[''n1'', ''n2'']"]
        update_sagas [of "\<lparr>read = Some False, shown = None\<rparr>" w_ok "''n1''" st0 "[''n1'', ''n2'']"]
  by (simp add: w_failing_def w_ok_def)

section \<open>Fetch-Some\<close>

lemma map_of_assign: "map_of (assign key v ps) key = Some v"
  by (induction ps) auto

lemma run_fetchSome:
  "run w (fetchSome opts) st =
     (let dir = (case opt_direction opts of None \<Rightarrow> ''after'' | Some d \<Rightarrow> d);
          searched = (case opt_types opts of
                        None \<Rightarrow> byId st
                      | Some ts \<Rightarrow> filter (\<lambda>e. notify_type (snd e) \<in> set ts) (byId st));
          base = [(''username'', Username (username st)), (''types'', Types (opt_types opts))];
          req = (case truthy (getTimestamp dir searched) of
                   Some c \<Rightarrow> assign dir (Cursor c) base
                 | None \<Rightarrow> base);
          p = api w (FetchSomeNotifications req);
          a = (case truthy (error p) of
                 Some e \<Rightarrow> Action ''notification/APPEND_SOME_ERROR'' (Msg e)
               | None \<Rightarrow> Action ''notification/APPEND_SOME'' (Payload p))
      in ([Called (FetchSomeNotifications req), Emitted a], reducer w st a))"
  by (simp add: fetchSome_def Let_def getUsernameFromState_def getNotificationsById_def
      split: option.splits)

text \<open>
  C7. \<^verbatim>\<open>fetchSome\<close> makes exactly one remote call, \<^verbatim>\<open>fetchSomeNotifications(req)\<close>. The cursor is
  \<^verbatim>\<open>getTimestamp\<close> of the direction (default \<^verbatim>\<open>after\<close>) and of the known notifications, filtered to
  \<^verbatim>\<open>types\<close> when given. When there is a cursor (a non-empty string, which is what
  \<^verbatim>\<open>if (timestamp)\<close> tests), \<open>req\<close> holds it under the direction key; when there is none, and so
  when the store is empty, \<open>req\<close> is just \<^verbatim>\<open>{username, types}\<close>. A response with an error gives
  \<^verbatim>\<open>notification/APPEND_SOME_ERROR\<close> with the message, any other \<^verbatim>\<open>notification/APPEND_SOME\<close> with
  the response; nothing else is put.
\<close>

theorem fetchSome_request:
  "let dir = (case opt_direction opts of None \<Rightarrow> ''after'' | Some d \<Rightarrow> d);
       searched = (case opt_types opts of
                     None \<Rightarrow> byId st
                   | Some ts \<Rightarrow> filter (\<lambda>e. notify_type (snd e) \<in> set ts) (byId st));
       cursor = getTimestamp dir searched
   in \<exists>req p.
        p = api w (FetchSomeNotifications req) \<and>
        calls (fst (run w (fetchSome opts) st)) = [FetchSomeNotifications req] \<and>
        (\<forall>c. cursor = Some c \<and> c \<noteq> [] \<longrightarrow> map_of req dir = Some (Cursor c)) \<and>
        (cursor = None \<or> cursor = Some [] \<longrightarrow>
           req = [(''username'', Username (username st)), (''types'', Types (opt_types opts))]) \<and>
        (byId st = [] \<longrightarrow> cursor = None) \<and>
        (\<forall>e. error p = Some e \<and> e \<noteq> [] \<longrightarrow>
           emitted (fst (run w (fetchSome opts) st)) =
             [Action ''notification/APPEND_SOME_ERROR'' (Msg e)]) \<and>
        (error p = None \<or> error p = Some [] \<longrightarrow>
           emitted (fst (run w (fetchSome opts) st)) =
             [Action ''notification/APPEND_SOME'' (Payload p)])"
  unfolding Let_def
proof (intro exI conjI)
  let ?dir = "case opt_direction opts of None \<Rightarrow> ''after'' | Some d \<Rightarrow> d"
  let ?searched = "case opt_types opts of
                     None \<Rightarrow> byId st
                   | Some ts \<Rightarrow> filter (\<lambda>e. notify_type (snd e) \<in> set ts) (byId st)"
  let ?base = "[(''username'', Username (username st)), (''types'', Types (opt_types opts))]"
  let ?req = "case truthy (getTimestamp ?dir ?searched) of
                Some c \<Rightarrow> assign ?dir (Cursor c) ?base
              | None \<Rightarrow> ?base"
  let ?p = "api w (FetchSomeNotifications ?req)"
  show "?p = api w (FetchSomeNotifications ?req)" by (rule refl)
  show "calls (fst (run w (fetchSome opts) st)) = [FetchSomeNotifications ?req]"
    by (simp add: run_fetchSome Let_def calls_def)
  show "\<forall>c. getTimestamp ?dir ?searched = Some c \<and> c \<noteq> [] \<longrightarrow>
          map_of ?req ?dir = Some (Cursor c)"
    by (simp add: truthy_def map_of_assign)
  show "getTimestamp ?dir ?searched = None \<or> getTimestamp ?dir ?searched = Some [] \<longrightarrow>
          ?req = ?base"
    by (auto simp add: truthy_def)
  show "byId st = [] \<longrightarrow> getTimestamp ?dir ?searched = None"
    by (auto simp add: getTimestamp_def split: option.splits)
  show "\<forall>e. error ?p = Some e \<and> e \<noteq> [] \<longrightarrow>
          emitted (fst (run w (fetchSome opts) st)) =
            [Action ''notification/APPEND_SOME_ERROR'' (Msg e)]"
    by (simp add: run_fetchSome Let_def emitted_def truthy_def)
  show "error ?p = None \<or> error ?p = Some [] \<longrightarrow>
          emitted (fst (run w (fetchSome opts) st)) =
            [Action ''notification/APPEND_SOME'' (Payload ?p)]"
    by (auto simp add: run_fetchSome Let_def emitted_def truthy_def)
qed

theorem fetchSome_request_witness:
  "getTimestamp ''before'' (filter (\<lambda>e. notify_type (snd e) \<in> set [''vote'']) (byId st1)) =
     Some ''2017-09-01'' \<and>
   calls (fst (run w_ok (fetchSome \<lparr>opt_types = Some [''vote''], opt_direction = Some ''before''\<rparr>) st1)) =
     [FetchSomeNotifications
        [(''username'', Username (Some ''basil'')), (''types'', Types (Some [''vote''])),
         (''before'', Cursor ''2017-09-01'')]] \<and>
   emitted (fst (run w_ok (fetchSome \<lparr>opt_types = Some [''vote''], opt_direction = Some ''before''\<rparr>) st1)) =
     [Action ''notification/APPEND_SOME'' (Payload ok_response)] \<and>
   calls (fst (run w_ok (fetchSome \<lparr>opt_types = None, opt_direction = None\<rparr>) st1)) =
     [FetchSomeNotifications
        [(''username'', Username (Some ''basil'')), (''types'', Types None),
         (''after'', Cursor ''2017-09-07'')]] \<and>
   byId st0 = [] \<and>
   calls (fst (run w_failing (fetchSome \<lparr>opt_types = None, opt_direction = None\<rparr>) st0)) =
     [FetchSomeNotifications [(''username'', Username (Some ''basil'')), (''types'', Types None)]] \<and>
   emitted (fst (run w_failing (fetchSome \<lparr>opt_types = None, opt_direction = None\<rparr>) st0)) =
     [Action ''notification/APPEND_SOME_ERROR'' (Msg ''poll cancelled'')]"
  using fetchSome_request [of "\<lparr>opt_types = Some [''vote''], opt_direction = Some ''before''\<rparr>" st1 w_ok]
        fetchSome_request [of "\<lparr>opt_types = None, opt_direction = None\<rparr>" st1 w_ok]
        fetchSome_request [of "\<lparr>opt_types = None, opt_direction = None\<rparr>" st0 w_failing]
  by (simp add: run_fetchSome Let_def calls_def emitted_def truthy_def getTimestamp_def
      st0_def st1_def w_ok_def w_failing_def ok_response_def failed_response_def
      n1_def n2_def n3_def)

section \<open>How a cancelled poll is reported\<close>

lemma run_poll_interrupted:
  "wait w = Interrupted \<Longrightarrow>
   run w pollNotifications st =
     ([Waited 5000, Emitted (Action ''notification/APPEND_SOME_ERROR'' (Msg ''poll cancelled''))],
      reducer w st (Action ''notification/APPEND_SOME_ERROR'' (Msg ''poll cancelled'')))"
  by (simp add: pollNotifications_def POLL_WAIT_MS_def)

lemma run_poll_elapses:
  "wait w = Elapses \<Longrightarrow>
   run w pollNotifications st =
     ([Waited 5000, Emitted (Action ''notification/FETCH_SOME'' (Direction ''after''))],
      reducer w st (Action ''notification/FETCH_SOME'' (Direction ''after'')))"
  by (simp add: pollNotifications_def POLL_WAIT_MS_def)

lemma run_fetchAll:
  "run w fetchAll st =
     (let p = api w (FetchAllNotifications (username st));
          a = (case truthy (error p) of
                 Some e \<Rightarrow> Action ''notification/RECEIVE_ALL_ERROR'' (Msg e)
               | None \<Rightarrow> Action ''notification/RECEIVE_ALL'' (Payload p))
      in ([Called (FetchAllNotifications (username st)), Emitted a], reducer w st a))"
  by (simp add: fetchAll_def Let_def getUsernameFromState_def split: option.splits)

text \<open>
  C3, as stated, fails: a cancelled poll puts the very action that \<^verbatim>\<open>fetchSome\<close> puts when
  its remote call fails with the message \<^verbatim>\<open>poll cancelled\<close>.
\<close>

theorem poll_cancelled_not_distinguished:
  "emitted (fst (run w_failing pollNotifications st0)) =
     [Action ''notification/APPEND_SOME_ERROR'' (Msg ''poll cancelled'')] \<and>
   error (api w_failing (FetchSomeNotifications
            [(''username'', Username (Some ''basil'')), (''types'', Types None)])) =
     Some ''poll cancelled'' \<and>
   emitted (fst (run w_failing (fetchSome \<lparr>opt_types = None, opt_direction = None\<rparr>) st0)) =
     [Action ''notification/APPEND_SOME_ERROR'' (Msg ''poll cancelled'')]"
  by (simp add: run_fetchSome run_poll_interrupted Let_def emitted_def truthy_def getTimestamp_def
      st0_def w_failing_def failed_response_def)

text \<open>
  C3, amended. A cancelled poll puts \<^verbatim>\<open>notification/APPEND_SOME_ERROR\<close> with the message
  \<^verbatim>\<open>poll cancelled\<close>: the type of a failed incremental fetch, told apart by the message only.
  It differs from what a failed full fetch puts (\<^verbatim>\<open>notification/RECEIVE_ALL_ERROR\<close>), and from
  what a failed incremental fetch puts exactly when that fetch's message is another one.
\<close>

theorem poll_cancelled_event:
  assumes "wait w = Interrupted"
    and "error (api wa (FetchAllNotifications (username sa))) = Some ea" and "ea \<noteq> []"
    and "\<forall>c. error (api wb c) = Some eb" and "eb \<noteq> []"
  shows "emitted (fst (run w pollNotifications st)) =
           [Action ''notification/APPEND_SOME_ERROR'' (Msg ''poll cancelled'')] \<and>
         emitted (fst (run wa fetchAll sa)) =
           [Action ''notification/RECEIVE_ALL_ERROR'' (Msg ea)] \<and>
         emitted (fst (run wa fetchAll sa)) \<noteq> emitted (fst (run w pollNotifications st)) \<and>
         emitted (fst (run wb (fetchSome opts) sb)) =
           [Action ''notification/APPEND_SOME_ERROR'' (Msg eb)] \<and>
         (emitted (fst (run wb (fetchSome opts) sb)) = emitted (fst (run w pollNotifications st))
            \<longleftrightarrow> eb = ''poll cancelled'')"
  using assms
  by (simp add: run_fetchSome run_fetchAll run_poll_interrupted Let_def emitted_def truthy_def)

theorem poll_cancelled_event_witness:
  "wait w_failing = Interrupted \<and>
   error (api w_failing (FetchAllNotifications (username st0))) = Some ''poll cancelled'' \<and>
   (\<forall>c. error (api w_failing c) = Some ''poll cancelled'') \<and> ''poll cancelled'' \<noteq> [] \<and>
   emitted (fst (run w_failing pollNotifications st0)) =
     [Action ''notification/APPEND_SOME_ERROR'' (Msg ''poll cancelled'')] \<and>
   emitted (fst (run w_failing fetchAll st0)) =
     [Action ''notification/RECEIVE_ALL_ERROR'' (Msg ''poll cancelled'')] \<and>
   emitted (fst (run w_failing fetchAll st0)) \<noteq> emitted (fst (run w_failing pollNotifications st0)) \<and>
   emitted (fst (run w_failing (fetchSome \<lparr>opt_types = None, opt_direction = None\<rparr>) st1)) =
     emitted (fst (run w_failing pollNotifications st0))"
  using poll_cancelled_event [of w_failing w_failing st0 "''poll cancelled''" w_failing
      "''poll cancelled''" st0 "\<lparr>opt_types = None, opt_direction = None\<rparr>" st1]
  by (simp add: w_failing_def failed_response_def)

section \<open>What the poll supervisor does\<close>

lemma awaiting_passes:
  "\<forall>s\<in>set ss. \<not> received s \<Longrightarrow>
   \<exists>st'. watchPollData w Awaiting st (ss @ rest) = watchPollData w Awaiting st' rest"
proof (induction ss arbitrary: st)
  case Nil
  show ?case by auto
next
  case (Cons s ss)
  show ?case
  proof (cases s)
    case Elapsed
    with Cons show ?thesis by simp
  next
    case (Dispatched a)
    with Cons.prems have
      "atype a \<noteq> ''notification/RECEIVE_ALL''" "atype a \<noteq> ''notification/APPEND_SOME''"
      by (simp_all add: received_def)
    moreover from Cons have
      "\<exists>st'. watchPollData w Awaiting (reducer w st a) (ss @ rest) = watchPollData w Awaiting st' rest"
      by simp
    ultimately show ?thesis using Dispatched by simp
  qed
qed

lemma awaiting_idle:
  assumes "\<forall>s\<in>set ss. \<not> received s"
  shows "watchPollData w Awaiting st ss = []"
  using awaiting_passes [OF assms, of w st "[]"] by simp

lemma awaiting_received:
  "received s \<Longrightarrow>
   \<exists>st'. watchPollData w Awaiting st (s # Elapsed # rest) =
     [Waited 5000, Emitted (Action ''notification/FETCH_SOME'' (Direction ''after''))] @
     watchPollData w Awaiting st' rest"
  by (cases s) (auto simp add: received_def run_poll_elapses)

lemma watchPollData_calls: "calls (watchPollData w p st ss) = []"
proof (induction w p st ss rule: watchPollData.induct)
  case (1 w p st)
  show ?case by (simp add: calls_def)
next
  case (2 w st ss)
  then show ?case by simp
next
  case (3 w st a ss)
  then show ?case by simp
next
  case (4 w st ss)
  then show ?case by (simp add: run_poll_elapses calls_def)
next
  case (5 w st a ss)
  then show ?case by (simp add: run_poll_interrupted calls_def)
qed

text \<open>
  C1 fails on the code. The supervisor never makes a remote call, whatever the store holds
  and whatever arrives. At the store \<open>st0\<close>, whose shown queue holds \<^verbatim>\<open>n1\<close>, running the third
  queue's drain would call \<^verbatim>\<open>markAsShown(['n1'])\<close> and put two actions; the supervisor, on
  \<^verbatim>\<open>notification/RECEIVE_ALL\<close>, goes straight to the race and only the poll is observed.
\<close>

theorem supervisor_never_drains:
  "calls (watchPollData w p st ss) = [] \<and>
   getIdsShownPending st0 = [''n1''] \<and>
   reducer w_ok st0 receive_all = st0 \<and>
   fst (run w_ok (processUpdateQueue (updateQueues ! 2)) st0) =
     [Called (MarkAsShown [''n1'']),
      Emitted (Action ''notification/SENT_UPDATES'' (Updates \<lparr>read = None, shown = Some True\<rparr>)),
      Emitted (Action ''notification/APPEND_SOME'' (Payload ok_response))] \<and>
   NotificationPollSaga w_ok st0 [Dispatched receive_all, Elapsed] =
     [Waited 5000, Emitted (Action ''notification/FETCH_SOME'' (Direction ''after''))]"
proof (intro conjI)
  show "calls (watchPollData w p st ss) = []"
    by (rule watchPollData_calls)
  show "getIdsShownPending st0 = [''n1'']"
    by (simp add: getIdsShownPending_def st0_def)
  show "reducer w_ok st0 receive_all = st0"
    by (simp add: w_ok_def)
  show "fst (run w_ok (processUpdateQueue (updateQueues ! 2)) st0) =
     [Called (MarkAsShown [''n1'']),
      Emitted (Action ''notification/SENT_UPDATES'' (Updates \<lparr>read = None, shown = Some True\<rparr>)),
      Emitted (Action ''notification/APPEND_SOME'' (Payload ok_response))]"
    by (simp add: updateQueues_def processUpdateQueue_def truthy_def getIdsShownPending_def
        st0_def w_ok_def ok_response_def)
  show "NotificationPollSaga w_ok st0 [Dispatched receive_all, Elapsed] =
     [Waited 5000, Emitted (Action ''notification/FETCH_SOME'' (Direction ''after''))]"
    by (simp add: NotificationPollSaga_def receive_all_def run_poll_elapses)
qed

text \<open>
  C2, as stated, fails: after the logout has won the race, a later
  \<^verbatim>\<open>notification/APPEND_SOME\<close> starts a new poll, which puts \<^verbatim>\<open>notification/FETCH_SOME\<close> when its
  wait ends.
\<close>

theorem supervisor_polls_after_logout:
  "NotificationPollSaga w_ok st0
      [Dispatched receive_all, Dispatched logout, Dispatched append_some, Elapsed] =
     [Waited 5000, Emitted (Action ''notification/APPEND_SOME_ERROR'' (Msg ''poll cancelled'')),
      Waited 5000, Emitted (Action ''notification/FETCH_SOME'' (Direction ''after''))]"
  by (simp add: NotificationPollSaga_def logout_def append_some_def receive_all_def
      run_poll_interrupted run_poll_elapses)

text \<open>
  C2, amended. When \<^verbatim>\<open>user/LOGOUT\<close> wins the race, the poll of that iteration is cancelled: it
  puts no \<^verbatim>\<open>notification/FETCH_SOME\<close>, only the report \<^verbatim>\<open>poll cancelled\<close>. The supervisor goes
  back to its \<^verbatim>\<open>take\<close>: as long as neither \<^verbatim>\<open>notification/RECEIVE_ALL\<close> nor
  \<^verbatim>\<open>notification/APPEND_SOME\<close> arrives, no poll is started and nothing is put. It has not
  stopped: the next such signal starts a new poll, which puts \<^verbatim>\<open>notification/FETCH_SOME\<close> when
  its wait ends.
\<close>

theorem logout_cancels_poll:
  assumes "atype a = ''user/LOGOUT''" and "\<forall>s\<in>set ss. \<not> received s" and "received s'"
  shows "watchPollData w Racing st (Dispatched a # ss) =
           [Waited 5000, Emitted (Action ''notification/APPEND_SOME_ERROR'' (Msg ''poll cancelled''))] \<and>
         watchPollData w Racing st (Dispatched a # ss @ [s', Elapsed]) =
           [Waited 5000, Emitted (Action ''notification/APPEND_SOME_ERROR'' (Msg ''poll cancelled'')),
            Waited 5000, Emitted (Action ''notification/FETCH_SOME'' (Direction ''after''))]"
proof
  show "watchPollData w Racing st (Dispatched a # ss) =
      [Waited 5000, Emitted (Action ''notification/APPEND_SOME_ERROR'' (Msg ''poll cancelled''))]"
    using assms(1,2) by (simp add: run_poll_interrupted awaiting_idle)
next
  let ?st = "reducer w (reducer w st a)
               (Action ''notification/APPEND_SOME_ERROR'' (Msg ''poll cancelled''))"
  obtain st' where
    "watchPollData w Awaiting ?st (ss @ [s', Elapsed]) = watchPollData w Awaiting st' [s', Elapsed]"
    using awaiting_passes [OF assms(2)] by blast
  moreover obtain st'' where
    "watchPollData w Awaiting st' [s', Elapsed] =
       [Waited 5000, Emitted (Action ''notification/FETCH_SOME'' (Direction ''after''))] @
       watchPollData w Awaiting st'' []"
    using awaiting_received [OF assms(3)] by blast
  ultimately show "watchPollData w Racing st (Dispatched a # ss @ [s', Elapsed]) =
           [Waited 5000, Emitted (Action ''notification/APPEND_SOME_ERROR'' (Msg ''poll cancelled'')),
            Waited 5000, Emitted (Action ''notification/FETCH_SOME'' (Direction ''after''))]"
    using assms(1) by (simp add: run_poll_interrupted)
qed

theorem logout_cancels_poll_witness:
  "atype logout = ''user/LOGOUT'' \<and> \<not> received Elapsed \<and> \<not> received (Dispatched logout) \<and>
   received (Dispatched append_some) \<and>
   watchPollData w_ok Racing st0 [Dispatched logout, Elapsed, Dispatched logout] =
     [Waited 5000, Emitted (Action ''notification/APPEND_SOME_ERROR'' (Msg ''poll cancelled''))] \<and>
   watchPollData w_ok Racing st0
       [Dispatched logout, Elapsed, Dispatched logout, Dispatched append_some, Elapsed] =
     [Waited 5000, Emitted (Action ''notification/APPEND_SOME_ERROR'' (Msg ''poll cancelled'')),
      Waited 5000, Emitted (Action ''notification/FETCH_SOME'' (Direction ''after''))]"
  using logout_cancels_poll [of logout "[Elapsed, Dispatched logout]" "Dispatched append_some" w_ok st0]
  by (simp add: logout_def append_some_def received_def)

end
